theory Spec2Isabelle
  imports Complex_Main "HOL-Library.Multiset"
begin

section \<open>Data model\<close>

text \<open>
  The module \<^verbatim>\<open>pred_app/model.py\<close> trains a two-class boosted-tree model under repeated random
  splits (\<^verbatim>\<open>build_model\<close>), aggregates the per-fold metrics (\<^verbatim>\<open>build_metric_table\<close>) and ranks
  the features (\<^verbatim>\<open>feature_scoring\<close>).

  Conventions of the embedding:
  \<^item> a label is a Python integer; the labels that occur are natural numbers (\<open>0\<close> and \<open>1\<close> for the
    two classes), so a label is a \<open>nat\<close>;
  \<^item> a float64 is idealised as a \<open>real\<close>: rounding error of the arithmetic is not modelled, and
    \<^verbatim>\<open>NaN\<close> is written as an explicit constructor where pandas produces it;
  \<^item> every raise is a value \<open>Inl e\<close> of the result type \<open>error + 'a\<close>;
  \<^item> the random permutation drawn by \<^verbatim>\<open>train_test_split\<close> and the boosted-tree learner
    (\<^verbatim>\<open>xgb.DMatrix\<close>, \<^verbatim>\<open>xgb.train\<close>, \<^verbatim>\<open>predict\<close>) are parameters of the model;
  \<^item> the functions of scikit-learn and pandas that the module calls are modelled from their
    documented behaviour on the arguments the module passes;
  \<^item> what is printed is not modelled; the database written by \<^verbatim>\<open>to_sql\<close> is a map from table
    names to tables.
\<close>

datatype error = ValueError | KeyError nat | UnboundLocalError | XGBoostError

type_synonym label = nat

text \<open>Sequencing of two steps of which the first may raise.\<close>

definition and_then :: "error + 'a \<Rightarrow> ('a \<Rightarrow> error + 'b) \<Rightarrow> error + 'b" where
  "and_then r k = (case r of Inl e \<Rightarrow> Inl e | Inr v \<Rightarrow> k v)"

text \<open>
  Modelled from the spec: the decorator \<^verbatim>\<open>utils.timerun\<close> of the three functions, whose module
  is not among the sources. The specification describes what the decorated functions
  return, so the decorator hands on the result of the call it wraps; what it prints is not
  modelled. The handle \<^verbatim>\<open>utils.engine\<close> of the same module is the database that the functions
  take and give back.
\<close>

definition timerun :: "'a \<Rightarrow> 'a" where
  "timerun result = result"

text \<open>A feature frame: the column names and the rows of numeric cells.\<close>

record frame =
  columns :: "string list"
  rows :: "real list list"

section \<open>The random split\<close>

text \<open>
  \<^verbatim>\<open>train_test_split(training_data, target, test_size=0.15)\<close>: the two arrays must have the
  same number of samples; \<open>n_test = ceil(0.15 * n)\<close> and \<open>n_train = n - n_test\<close>; an empty
  training set is a \<^verbatim>\<open>ValueError\<close>. The first \<open>n_test\<close> entries of the drawn permutation index
  the held-out rows, the following \<open>n_train\<close> entries the training rows.
\<close>

definition n_test_of :: "nat \<Rightarrow> nat" where
  "n_test_of n = (15 * n + 99) div 100"

definition safe_indexing :: "'a list \<Rightarrow> nat list \<Rightarrow> 'a list" where
  "safe_indexing xs ind = map (\<lambda>i. xs ! i) ind"

definition train_test_split ::
  "nat list \<Rightarrow> frame \<Rightarrow> label list \<Rightarrow> error + (frame \<times> frame \<times> label list \<times> label list)" where
  "train_test_split permutation training_data target =
     (let n_samples = length (rows training_data) in
      if length target \<noteq> n_samples then Inl ValueError
      else
        let n_test = n_test_of n_samples;
            n_train = n_samples - n_test
        in if n_train = 0 then Inl ValueError
           else
             let ind_test = take n_test permutation;
                 ind_train = take n_train (drop n_test permutation)
             in Inr (training_data\<lparr>rows := safe_indexing (rows training_data) ind_train\<rparr>,
                     training_data\<lparr>rows := safe_indexing (rows training_data) ind_test\<rparr>,
                     safe_indexing target ind_train,
                     safe_indexing target ind_test))"

section \<open>Predicted labels\<close>

text \<open>\<^verbatim>\<open>np.argmax(pred)\<close> on the two class probabilities of a row: the first maximal position.\<close>

definition argmax :: "real \<times> real \<Rightarrow> label" where
  "argmax pred = (if fst pred < snd pred then 1 else 0)"

section \<open>The cross-tabulation\<close>

text \<open>
  \<^verbatim>\<open>pd.DataFrame(dict(actual=y_test, prediction=outcomes))\<close> pairs the held-out labels with
  the predicted ones by position; a list of another length than the series is a
  \<^verbatim>\<open>ValueError\<close>.
\<close>

definition combine :: "label list \<Rightarrow> label list \<Rightarrow> error + (label \<times> label) list" where
  "combine y_test outcomes =
     (if length outcomes \<noteq> length y_test then Inl ValueError else Inr (zip y_test outcomes))"

text \<open>
  \<^verbatim>\<open>pd.crosstab(index=actual, columns=prediction)\<close>: one column per predicted label that occurs,
  one row per actual label that occurs (both sorted), each cell the number of samples with
  that pair. A table is stored column by column, as \<^verbatim>\<open>crosstab[c][r]\<close> reads it.
\<close>

type_synonym crosstab = "(label \<times> (label \<times> nat) list) list"

definition pd_crosstab :: "(label \<times> label) list \<Rightarrow> crosstab" where
  "pd_crosstab combined =
     (let index = sort (remdups (map fst combined));
          cols = sort (remdups (map snd combined))
      in map (\<lambda>c. (c, map (\<lambda>r. (r, count_list combined (r, c))) index)) cols)"

text \<open>\<^verbatim>\<open>obj[k]\<close> on a frame (by column label) or on a series (by index label).\<close>

definition getitem :: "(label \<times> 'a) list \<Rightarrow> label \<Rightarrow> error + 'a" where
  "getitem obj k = (case map_of obj k of None \<Rightarrow> Inl (KeyError k) | Some v \<Rightarrow> Inr v)"

definition crosstab_at :: "crosstab \<Rightarrow> label \<Rightarrow> label \<Rightarrow> error + nat" where
  "crosstab_at ct c r = and_then (getitem ct c) (\<lambda>col. getitem col r)"

text \<open>
  Lines 74 and 75 of the module, in the order in which Python evaluates them:
  \<^verbatim>\<open>correct = int(crosstab[0][0]) + int(crosstab[1][1])\<close>,
  \<^verbatim>\<open>incorrect = int(crosstab[0][1]) + int(crosstab[1][0])\<close>.
\<close>

definition confusion_counts :: "crosstab \<Rightarrow> error + (nat \<times> nat)" where
  "confusion_counts ct =
     and_then (crosstab_at ct 0 0) (\<lambda>c00.
     and_then (crosstab_at ct 1 1) (\<lambda>c11.
     and_then (crosstab_at ct 0 1) (\<lambda>c01.
     and_then (crosstab_at ct 1 0) (\<lambda>c10.
     Inr (c00 + c11, c01 + c10)))))"

section \<open>The scoring functions of scikit-learn\<close>

text \<open>
  The module calls \<^verbatim>\<open>precision_score\<close>, \<^verbatim>\<open>accuracy_score\<close>, \<^verbatim>\<open>log_loss\<close>, \<^verbatim>\<open>roc_auc_score\<close>
  and \<^verbatim>\<open>recall_score\<close> with the held-out labels and the list \<^verbatim>\<open>outcomes\<close> of predicted labels,
  and with no other argument.
\<close>

definition count_where :: "('a \<Rightarrow> bool) \<Rightarrow> 'a list \<Rightarrow> nat" where
  "count_where P xs = length (filter P xs)"

text \<open>The labels present in either list, sorted.\<close>

definition unique_labels :: "label list \<Rightarrow> label list \<Rightarrow> label list" where
  "unique_labels y_true y_pred = sort (remdups (y_true @ y_pred))"

text \<open>
  The checks of \<^verbatim>\<open>precision_score\<close> and \<^verbatim>\<open>recall_score\<close> for \<^verbatim>\<open>average='binary'\<close> and
  \<^verbatim>\<open>pos_label=1\<close>: the lists have one length; more than two labels make the target
  multiclass, which is refused; with two labels present the positive label must be one of
  them.
\<close>

definition check_set_wise_labels :: "label list \<Rightarrow> label list \<Rightarrow> error + unit" where
  "check_set_wise_labels y_true y_pred =
     (let present_labels = unique_labels y_true y_pred in
      if length y_pred \<noteq> length y_true then Inl ValueError
      else if 2 < length present_labels then Inl ValueError
      else if 1 \<notin> set present_labels \<and> 2 \<le> length present_labels then Inl ValueError
      else Inr ())"

text \<open>
  Precision is \<open>tp / (tp + fp)\<close> and recall \<open>tp / (tp + fn)\<close> for the positive label \<open>1\<close>;
  with a zero denominator scikit-learn warns and returns \<open>0\<close>.
\<close>

definition precision_score :: "label list \<Rightarrow> label list \<Rightarrow> error + real" where
  "precision_score y_true y_pred =
     and_then (check_set_wise_labels y_true y_pred) (\<lambda>_.
       let tp_sum = count_where (\<lambda>(t, p). t = 1 \<and> p = 1) (zip y_true y_pred);
           pred_sum = count_where (\<lambda>p. p = 1) y_pred
       in Inr (if pred_sum = 0 then 0 else real tp_sum / real pred_sum))"

definition recall_score :: "label list \<Rightarrow> label list \<Rightarrow> error + real" where
  "recall_score y_true y_pred =
     and_then (check_set_wise_labels y_true y_pred) (\<lambda>_.
       let tp_sum = count_where (\<lambda>(t, p). t = 1 \<and> p = 1) (zip y_true y_pred);
           true_sum = count_where (\<lambda>t. t = 1) y_true
       in Inr (if true_sum = 0 then 0 else real tp_sum / real true_sum))"

text \<open>
  Accuracy is the fraction of positions where the two lists agree. On an empty sample numpy
  computes \<open>0 / 0\<close>, a \<^verbatim>\<open>NaN\<close> with a warning; the model has no such value and gives the
  error branch there. No fold reaches it: \<^verbatim>\<open>train_test_split\<close> holds out at least one row.
\<close>

definition accuracy_score :: "label list \<Rightarrow> label list \<Rightarrow> error + real" where
  "accuracy_score y_true y_pred =
     (if length y_pred \<noteq> length y_true then Inl ValueError
      else if y_true = [] then Inl ValueError
      else Inr (real (count_where (\<lambda>(t, p). t = p) (zip y_true y_pred)) / real (length y_true)))"

text \<open>
  \<^verbatim>\<open>log_loss(y_true, y_pred)\<close> with a one-dimensional \<open>y_pred\<close>: the labels of \<open>y_true\<close> are
  binarised, the larger of the two being the positive one, and any other number of distinct
  labels is a \<^verbatim>\<open>ValueError\<close>; each entry \<open>p\<close> of \<open>y_pred\<close> is clipped to \<open>[eps, 1 - eps]\<close>
  and read as the probability of the positive label, \<open>1 - p\<close> being that of the other label
  (the two sum to one, so the renormalisation that follows changes nothing); the result is
  the mean over the samples of minus the logarithm of the probability given to the true
  label. \<open>eps\<close> is the machine epsilon of float64.
\<close>

definition log_loss_eps :: real where
  "log_loss_eps = 1 / 2 ^ 52"

definition clip :: "real \<Rightarrow> real \<Rightarrow> real \<Rightarrow> real" where
  "clip x lo hi = min (max x lo) hi"

definition sample_loss :: "label \<Rightarrow> label \<times> real \<Rightarrow> real" where
  "sample_loss pos tp =
     (let p = clip (snd tp) log_loss_eps (1 - log_loss_eps)
      in - ln (if fst tp = pos then p else 1 - p))"

definition log_loss :: "label list \<Rightarrow> real list \<Rightarrow> error + real" where
  "log_loss y_true y_pred =
     (if length y_pred \<noteq> length y_true then Inl ValueError
      else
        let classes = sort (remdups y_true)
        in if length classes \<noteq> 2 then Inl ValueError
           else
             let loss = map (sample_loss (classes ! 1)) (zip y_true y_pred)
             in Inr (sum_list loss / real (length loss)))"

text \<open>
  \<^verbatim>\<open>roc_auc_score(y_true, y_score)\<close> is defined for exactly two classes in \<open>y_true\<close>, the
  larger label being the positive one, and raises \<^verbatim>\<open>ValueError\<close> otherwise (the module
  reaches it with two classes only: \<^verbatim>\<open>log_loss\<close> has raised before otherwise). The area
  under the curve is the fraction of pairs of a positive and a negative sample that the
  score orders correctly, a tie counting one half.
\<close>

definition pair_score :: "real \<Rightarrow> real \<Rightarrow> real" where
  "pair_score p n = (if n < p then 1 else if n = p then 1 / 2 else 0)"

definition area_under_curve :: "real list \<Rightarrow> real list \<Rightarrow> real" where
  "area_under_curve pos neg =
     sum_list (map (\<lambda>p. sum_list (map (pair_score p) neg)) pos)
       / (real (length pos) * real (length neg))"

definition roc_auc_score :: "label list \<Rightarrow> real list \<Rightarrow> error + real" where
  "roc_auc_score y_true y_score =
     (if length y_score \<noteq> length y_true then Inl ValueError
      else
        let classes = sort (remdups y_true)
        in if length classes \<noteq> 2 then Inl ValueError
           else
             let pos = map snd (filter (\<lambda>(t, s). t = classes ! 1) (zip y_true y_score));
                 neg = map snd (filter (\<lambda>(t, s). t \<noteq> classes ! 1) (zip y_true y_score))
             in Inr (area_under_curve pos neg))"

section \<open>Rounding\<close>

text \<open>
  \<^verbatim>\<open>round(x, 4)\<close>: the nearest multiple of \<open>1 / 10 ^ 4\<close>, a tie going to the even multiple.
\<close>

definition rint :: "real \<Rightarrow> int" where
  "rint x =
     (let f = \<lfloor>x\<rfloor>
      in if x - of_int f < 1 / 2 then f
         else if 1 / 2 < x - of_int f then f + 1
         else if even f then f else f + 1)"

definition py_round :: "real \<Rightarrow> nat \<Rightarrow> real" where
  "py_round x ndigits = of_int (rint (x * 10 ^ ndigits)) / 10 ^ ndigits"

section \<open>The cross-validated training loop\<close>

text \<open>
  Lines 66 to 79 of \<^verbatim>\<open>build_model\<close>: the metrics of one fold from the held-out labels and the
  predicted labels, in the order in which the module evaluates them. The result is the
  list \<^verbatim>\<open>arr\<close>.
\<close>

definition fold_metrics :: "label list \<Rightarrow> label list \<Rightarrow> error + real list" where
  "fold_metrics y_test outcomes =
     and_then (combine y_test outcomes) (\<lambda>combined.
     let crosstab = pd_crosstab combined in
     and_then (precision_score y_test outcomes) (\<lambda>p.
     let precision = py_round p 4 * 100 in
     and_then (accuracy_score y_test outcomes) (\<lambda>a.
     let accuracy = py_round a 4 * 100 in
     and_then (log_loss y_test (map real outcomes)) (\<lambda>l.
     let logloss = py_round l 4 in
     and_then (roc_auc_score y_test (map real outcomes)) (\<lambda>r.
     let roc = py_round r 4 * 100 in
     and_then (recall_score y_test outcomes) (\<lambda>rc.
     let recall = py_round rc 4 * 100 in
     and_then (confusion_counts crosstab) (\<lambda>(correct, incorrect).
     let game_count = length outcomes in
     Inr [precision, recall, accuracy, logloss, roc,
          real correct, real incorrect, real game_count])))))))"

text \<open>
  The learner: \<^verbatim>\<open>xgb.DMatrix\<close> on both parts of the split, \<^verbatim>\<open>xgb.train\<close> with the fixed
  parameters (\<^verbatim>\<open>num_class = 2\<close>, \<^verbatim>\<open>multi:softprob\<close>) and \<^verbatim>\<open>predict\<close> on the held-out part. It
  is a parameter: from the fold number and the split it gives the predicted probabilities
  of the two classes, one pair per row it predicts, or raises.
\<close>

type_synonym learner =
  "nat \<Rightarrow> frame \<Rightarrow> label list \<Rightarrow> frame \<Rightarrow> label list \<Rightarrow> error + (real \<times> real) list"

text \<open>What one iteration of the loop leaves in the variables that the function returns.\<close>

type_synonym fold_vars = "frame \<times> label list \<times> label list \<times> label list"

text \<open>
  One iteration of the loop, lines 50 to 80: \<open>shuffle i\<close> is the permutation drawn by
  \<^verbatim>\<open>train_test_split\<close> in iteration \<open>i\<close>.
\<close>

definition run_fold ::
  "(nat \<Rightarrow> nat list) \<Rightarrow> learner \<Rightarrow> frame \<Rightarrow> label list \<Rightarrow> nat \<Rightarrow> error + (real list \<times> fold_vars)" where
  "run_fold shuffle xgb training_data target i =
     and_then (train_test_split (shuffle i) training_data target) (\<lambda>(x_train, x_test, y_train, y_test).
     and_then (xgb i x_train y_train x_test y_test) (\<lambda>preds.
     let outcomes = map argmax preds in
     and_then (fold_metrics y_test outcomes) (\<lambda>arr.
     Inr (arr, x_train, y_train, y_test, outcomes))))"

text \<open>
  The loop \<^verbatim>\<open>for i in range(cv_count)\<close>: the state is \<^verbatim>\<open>metrics_list\<close> and the variables of the
  last iteration, which are unbound before the first one.
\<close>

fun build_model_loop ::
  "(nat \<Rightarrow> nat list) \<Rightarrow> learner \<Rightarrow> frame \<Rightarrow> label list \<Rightarrow> nat list \<Rightarrow>
   real list list \<times> fold_vars option \<Rightarrow> error + (real list list \<times> fold_vars option)" where
  "build_model_loop shuffle xgb training_data target [] st = Inr st"
| "build_model_loop shuffle xgb training_data target (i # is) st =
     and_then (run_fold shuffle xgb training_data target i) (\<lambda>(arr, vars).
       build_model_loop shuffle xgb training_data target is (fst st @ [arr], Some vars))"

text \<open>
  \<^verbatim>\<open>build_model(training_data, target, cv_count)\<close>. The return statement reads \<^verbatim>\<open>x_train\<close>,
  which no iteration has bound when \<^verbatim>\<open>range(cv_count)\<close> is empty.
\<close>

definition build_model ::
  "(nat \<Rightarrow> nat list) \<Rightarrow> learner \<Rightarrow> frame \<Rightarrow> label list \<Rightarrow> int \<Rightarrow>
   error + (real list list \<times> frame \<times> label list \<times> label list \<times> label list)" where
  "build_model shuffle xgb training_data target cv_count =
     timerun
       (and_then (build_model_loop shuffle xgb training_data target [0..<nat cv_count] ([], None))
          (\<lambda>(metrics_list, vars).
             case vars of
               None \<Rightarrow> Inl UnboundLocalError
             | Some (x_train, y_train, y_test, outcomes) \<Rightarrow>
                 Inr (metrics_list, x_train, y_train, y_test, outcomes)))"

section \<open>Result tables and the database\<close>

text \<open>
  A cell of a result table is a string, a number or \<^verbatim>\<open>NaN\<close>. A table has its row labels and
  its columns in order, each column with its name and its cells.
\<close>

datatype cell = Str string | Num real | NaN

record dataframe =
  df_index :: "cell list"
  df_columns :: "(string \<times> cell list) list"

text \<open>
  \<^verbatim>\<open>to_sql(name, utils.engine, if_exists="replace", index=...)\<close>: both calls of the module
  write the columns of the table without its row labels (\<^verbatim>\<open>index=False\<close> in
  \<^verbatim>\<open>feature_scoring\<close>; in \<^verbatim>\<open>build_metric_table\<close> the argument is an \<^verbatim>\<open>Index\<close> object, which pandas
  reads as no index name), and replace any table of that name.
\<close>

type_synonym database = "string \<rightharpoonup> (string \<times> cell list) list"

definition to_sql :: "dataframe \<Rightarrow> string \<Rightarrow> database \<Rightarrow> database" where
  "to_sql table name engine = engine(name \<mapsto> df_columns table)"

section \<open>Metric aggregation\<close>

text \<open>
  \<^verbatim>\<open>pd.DataFrame(metrics_data, columns=[...])\<close> with the eight column names: rows shorter than
  the longest one are padded with missing cells, and a longest row of another length than
  eight is a \<^verbatim>\<open>ValueError\<close>; an empty list gives eight empty columns. The frame is kept
  column by column, a missing cell being \<open>None\<close>.
\<close>

definition metric_names :: "string list" where
  "metric_names =
     [''Precision'', ''Recall'', ''Accuracy'', ''Logloss'', ''ROC'', ''Correct'', ''Incorrect'',
      ''Games Tested'']"

definition metrics_frame :: "real list list \<Rightarrow> error + real option list list" where
  "metrics_frame metrics_data =
     (if metrics_data \<noteq> [] \<and> fold max (map length metrics_data) 0 \<noteq> length metric_names
      then Inl ValueError
      else Inr (map (\<lambda>j. map (\<lambda>row. if j < length row then Some (row ! j) else None) metrics_data)
                  [0..<length metric_names]))"

text \<open>
  The aggregations \<^verbatim>\<open>agg(np.mean)\<close>, \<^verbatim>\<open>agg(np.min)\<close>, \<^verbatim>\<open>agg(np.max)\<close> and \<^verbatim>\<open>agg(np.std)\<close> of a
  column skip its missing cells; the standard deviation is the sample one (divisor
  \<open>n - 1\<close>). With no cell left, or one cell for the standard deviation, the result is
  \<^verbatim>\<open>NaN\<close>.
\<close>

definition present :: "real option list \<Rightarrow> real list" where
  "present col = List.map_filter (\<lambda>c. c) col"

definition agg_mean :: "real list \<Rightarrow> cell" where
  "agg_mean vs = (if vs = [] then NaN else Num (sum_list vs / real (length vs)))"

definition agg_min :: "real list \<Rightarrow> cell" where
  "agg_min vs = (case vs of [] \<Rightarrow> NaN | v # ws \<Rightarrow> Num (fold min ws v))"

definition agg_max :: "real list \<Rightarrow> cell" where
  "agg_max vs = (case vs of [] \<Rightarrow> NaN | v # ws \<Rightarrow> Num (fold max ws v))"

definition agg_std :: "real list \<Rightarrow> cell" where
  "agg_std vs =
     (if length vs < 2 then NaN
      else
        let mean = sum_list vs / real (length vs)
        in Num (sqrt (sum_list (map (\<lambda>v. (v - mean)\<^sup>2) vs) / real (length vs - 1))))"

text \<open>
  \<^verbatim>\<open>build_metric_table(metrics_data)\<close>: one row \<^verbatim>\<open>[mean, min, max, std]\<close> per column of the
  frame, labelled by the column names; the column \<^verbatim>\<open>Metric\<close> is added and put first; the
  table is written to \<^verbatim>\<open>metric_scores\<close> and returned.
\<close>

definition build_metric_table ::
  "real list list \<Rightarrow> database \<Rightarrow> error + (dataframe \<times> database)" where
  "build_metric_table metrics_data engine =
     timerun (and_then (metrics_frame metrics_data) (\<lambda>table.
       let full_data =
             map (\<lambda>column. [agg_mean (present column), agg_min (present column),
                             agg_max (present column), agg_std (present column)]) table;
           summary =
             \<lparr>df_index = map Str metric_names,
              df_columns =
                [(''Metric'', map Str [''Precision'', ''Recall'', ''Accuracy'', ''Logloss'',
                                       ''ROC-AUC'', ''Correct'', ''Incorrect'', ''Games Tested'']),
                 (''Mean'', map (\<lambda>temp. temp ! 0) full_data),
                 (''Min'', map (\<lambda>temp. temp ! 1) full_data),
                 (''Max'', map (\<lambda>temp. temp ! 2) full_data),
                 (''Std'', map (\<lambda>temp. temp ! 3) full_data)]\<rparr>
       in Inr (summary, to_sql summary ''metric_scores'' engine)))"

section \<open>Feature scoring\<close>

text \<open>
  \<^verbatim>\<open>SelectKBest(score_func=f_classif, k="all").fit(x_train, y_train)\<close>: the input is
  validated (at least one sample and one feature, as many labels as samples), and
  \<^verbatim>\<open>scores_\<close> holds one score per column, computed from that column and the labels. The
  statistic itself is a parameter; a score that is not a number (as for a constant column)
  is outside the model.
\<close>

type_synonym score_func = "real list \<Rightarrow> label list \<Rightarrow> real"

definition column_values :: "frame \<Rightarrow> nat \<Rightarrow> real list" where
  "column_values x j = map (\<lambda>row. row ! j) (rows x)"

definition select_k_best_fit :: "score_func \<Rightarrow> frame \<Rightarrow> label list \<Rightarrow> error + real list" where
  "select_k_best_fit f_classif x_train y_train =
     (if rows x_train = [] \<or> columns x_train = [] \<or> length y_train \<noteq> length (rows x_train)
      then Inl ValueError
      else Inr (map (\<lambda>j. f_classif (column_values x_train j) y_train)
                  [0..<length (columns x_train)]))"

text \<open>
  \<^verbatim>\<open>sort_values(["Specs"], ascending=False)\<close> on rows whose first component is the cell of
  \<^verbatim>\<open>Specs\<close>. (pandas leaves the order of rows with equal keys open; the model keeps their
  order.)
\<close>

definition sort_values_descending :: "(real \<times> 'a) list \<Rightarrow> (real \<times> 'a) list" where
  "sort_values_descending rs = sort_key (\<lambda>r. - fst r) rs"

text \<open>
  \<^verbatim>\<open>feature_scoring(x_train, y_train)\<close>: the frame of the scores and the frame of the column
  names are put side by side, the two columns are named \<^verbatim>\<open>Specs\<close> and \<^verbatim>\<open>Score\<close> in this
  order, the rows are sorted and renumbered, and the table is written to
  \<^verbatim>\<open>feature_scores\<close> and returned.
\<close>

definition feature_scoring ::
  "score_func \<Rightarrow> frame \<Rightarrow> label list \<Rightarrow> database \<Rightarrow> error + (dataframe \<times> database)" where
  "feature_scoring f_classif x_train y_train engine =
     timerun (and_then (select_k_best_fit f_classif x_train y_train) (\<lambda>fit_scores.
       let temp = fit_scores;
           cols = columns x_train;
           sorted = sort_values_descending (zip temp cols);
           scores =
             \<lparr>df_index = map (\<lambda>i. Num (real i)) [0..<length sorted],
              df_columns = [(''Specs'', map (\<lambda>r. Num (fst r)) sorted),
                            (''Score'', map (\<lambda>r. Str (snd r)) sorted)]\<rparr>
       in Inr (scores, to_sql scores ''feature_scores'' engine)))"

section \<open>The log-loss of the specification\<close>

text \<open>
  The glossary of the specification: the log-loss is the negative log-likelihood of the
  true labels under the predicted class probabilities. For a list of labels and the pairs
  of class probabilities predicted for them, averaged over the samples as \<^verbatim>\<open>log_loss\<close>
  averages:
\<close>

definition negative_log_likelihood :: "label list \<Rightarrow> (real \<times> real) list \<Rightarrow> real" where
  "negative_log_likelihood y_true preds =
     sum_list (map (\<lambda>(t, p). - ln (if t = 1 then snd p else fst p)) (zip y_true preds))
       / real (length y_true)"

section \<open>A worked input\<close>

text \<open>
  Seven games with two features. The permutation drawn is the identity, so that the first
  two games are held out; the learner gives the second class three chances in five when the
  first feature is not negative, and two in five otherwise.
\<close>

definition example_frame :: frame where
  "example_frame =
     \<lparr>columns = [''A_Massey'', ''H_Massey''],
      rows = [[-1, 3], [2, 1], [-2, 2], [1, 1], [3, 0], [-3, 4], [2, 2]]\<rparr>"

definition example_target :: "label list" where
  "example_target = [0, 1, 0, 1, 1, 0, 1]"

definition example_shuffle :: "nat \<Rightarrow> nat list" where
  "example_shuffle i = [0, 1, 2, 3, 4, 5, 6]"

definition example_xgb :: learner where
  "example_xgb i x_train y_train x_test y_test =
     Inr (map (\<lambda>row. if row ! 0 < 0 then (3 / 5, 2 / 5) else (2 / 5, 3 / 5)) (rows x_test))"

text \<open>A score function for the worked input: the sum of the column.\<close>

definition example_f_classif :: score_func where
  "example_f_classif column y = sum_list column"

section \<open>Sequencing\<close>

lemma and_then_simps [simp]:
  "and_then (Inl e) k = Inl e"
  "and_then (Inr v) k = k v"
  by (simp_all add: and_then_def)

lemma and_then_eq_Inr:
  "and_then r k = Inr y \<longleftrightarrow> (\<exists>v. r = Inr v \<and> k v = Inr y)"
  by (cases r) simp_all

section \<open>Properties of the cross-tabulation\<close>

text \<open>
  A read of the cross-tabulation succeeds exactly when the column label occurs among the
  predicted labels and the row label among the actual ones, and gives the number of
  samples with that pair.
\<close>

lemma map_of_pd_crosstab:
  "map_of (pd_crosstab combined) c =
     (if c \<in> snd ` set combined
      then Some (map (\<lambda>r. (r, count_list combined (r, c))) (sort (remdups (map fst combined))))
      else None)"
  by (simp add: pd_crosstab_def Let_def map_of_map_restrict restrict_map_def)

lemma map_of_crosstab_column:
  "map_of (map (\<lambda>r. (r, f r)) (sort (remdups xs))) r = (if r \<in> set xs then Some (f r) else None)"
  by (simp add: map_of_map_restrict restrict_map_def)

lemma crosstab_at_eq:
  "crosstab_at (pd_crosstab combined) c r =
     (if c \<notin> snd ` set combined then Inl (KeyError c)
      else if r \<notin> fst ` set combined then Inl (KeyError r)
      else Inr (count_list combined (r, c)))"
  by (simp add: crosstab_at_def getitem_def map_of_pd_crosstab map_of_crosstab_column)

lemma confusion_counts_eq:
  "confusion_counts (pd_crosstab combined) =
     (if 0 \<notin> snd ` set combined then Inl (KeyError 0)
      else if 0 \<notin> fst ` set combined then Inl (KeyError 0)
      else if 1 \<notin> snd ` set combined then Inl (KeyError 1)
      else if 1 \<notin> fst ` set combined then Inl (KeyError 1)
      else Inr (count_list combined (0, 0) + count_list combined (1, 1),
                count_list combined (1, 0) + count_list combined (0, 1)))"
  by (simp add: confusion_counts_def crosstab_at_eq)

section \<open>One fold\<close>

text \<open>What a fold that raises nothing has computed.\<close>

lemma fold_metrics_Inr:
  assumes "fold_metrics y_test outcomes = Inr arr"
  obtains p a l r rc correct incorrect where
    "length outcomes = length y_test"
    "precision_score y_test outcomes = Inr p"
    "accuracy_score y_test outcomes = Inr a"
    "log_loss y_test (map real outcomes) = Inr l"
    "roc_auc_score y_test (map real outcomes) = Inr r"
    "recall_score y_test outcomes = Inr rc"
    "confusion_counts (pd_crosstab (zip y_test outcomes)) = Inr (correct, incorrect)"
    "arr = [py_round p 4 * 100, py_round rc 4 * 100, py_round a 4 * 100, py_round l 4,
            py_round r 4 * 100, real correct, real incorrect, real (length outcomes)]"
proof -
  from assms obtain combined p a l r rc ci where
    c: "combine y_test outcomes = Inr combined" and
    p: "precision_score y_test outcomes = Inr p" and
    a: "accuracy_score y_test outcomes = Inr a" and
    l: "log_loss y_test (map real outcomes) = Inr l" and
    r: "roc_auc_score y_test (map real outcomes) = Inr r" and
    rc: "recall_score y_test outcomes = Inr rc" and
    ci: "confusion_counts (pd_crosstab combined) = Inr ci" and
    arr: "(case ci of (correct, incorrect) \<Rightarrow>
            Inr [py_round p 4 * 100, py_round rc 4 * 100, py_round a 4 * 100, py_round l 4,
                 py_round r 4 * 100, real correct, real incorrect, real (length outcomes)])
          = (Inr arr :: error + real list)"
    unfolding fold_metrics_def Let_def and_then_eq_Inr by blast
  from c have len: "length outcomes = length y_test" and comb: "combined = zip y_test outcomes"
    by (simp_all add: combine_def split: if_splits)
  obtain correct incorrect where cie: "ci = (correct, incorrect)" by (cases ci)
  from arr cie have arr':
    "arr = [py_round p 4 * 100, py_round rc 4 * 100, py_round a 4 * 100, py_round l 4,
            py_round r 4 * 100, real correct, real incorrect, real (length outcomes)]"
    by simp
  from ci comb cie
  have cc: "confusion_counts (pd_crosstab (zip y_test outcomes)) = Inr (correct, incorrect)"
    by simp
  show thesis by (rule that[OF len p a l r rc cc arr'])
qed

text \<open>
  With labels \<open>0\<close> and \<open>1\<close> only, the four cells of the cross-tabulation count every sample
  once.
\<close>

lemma count_list_binary_total:
  assumes "set xs \<subseteq> {0::nat, 1} \<times> {0::nat, 1}"
  shows "count_list xs (0, 0) + count_list xs (1, 1) + (count_list xs (1, 0) + count_list xs (0, 1)) = length xs"
  using assms
proof (induction xs)
  case Nil
  show ?case by simp
next
  case (Cons x xs)
  then have IH: "count_list xs (0, 0) + count_list xs (1, 1) + (count_list xs (1, 0) + count_list xs (0, 1)) = length xs"
    by simp
  from Cons.prems have "x = (0, 0) \<or> x = (1, 1) \<or> x = (1, 0) \<or> x = (0, 1)"
    by (cases x) auto
  then show ?case using IH by (elim disjE) simp_all
qed

lemma length_unique_labels: "length (unique_labels a b) = card (set a \<union> set b)"
  by (simp add: unique_labels_def length_remdups_card_conv)

lemma check_set_wise_labels_Inr:
  "check_set_wise_labels y_true y_pred = Inr u \<Longrightarrow>
     length y_pred = length y_true \<and> card (set y_true \<union> set y_pred) \<le> 2"
  by (auto simp: check_set_wise_labels_def Let_def length_unique_labels split: if_splits)

lemma confusion_counts_Inr:
  assumes "confusion_counts (pd_crosstab combined) = Inr (correct, incorrect)"
  shows "0 \<in> fst ` set combined" "1 \<in> fst ` set combined"
        "0 \<in> snd ` set combined" "1 \<in> snd ` set combined"
        "correct = count_list combined (0, 0) + count_list combined (1, 1)"
        "incorrect = count_list combined (1, 0) + count_list combined (0, 1)"
  using assms by (auto simp: confusion_counts_eq split: if_splits)

lemma binary_of_card_le_2:
  assumes "finite A" "card A \<le> 2" "(0::nat) \<in> A" "1 \<in> A"
  shows "A = {0, 1}"
proof -
  have "{0, 1} \<subseteq> A" using assms by simp
  moreover have "card {0::nat, 1} = 2" by simp
  ultimately show ?thesis using assms
    by (metis card_seteq)
qed

lemma fold_metrics_counts:
  assumes "fold_metrics y_test outcomes = Inr arr"
  shows "arr ! 5 + arr ! 6 = real (length y_test)" "arr ! 7 = real (length y_test)" "length arr = 8"
proof -
  from assms obtain p a l r rc correct incorrect where
    len: "length outcomes = length y_test" and
    pr: "precision_score y_test outcomes = Inr p" and
    cc: "confusion_counts (pd_crosstab (zip y_test outcomes)) = Inr (correct, incorrect)" and
    arr: "arr = [py_round p 4 * 100, py_round rc 4 * 100, py_round a 4 * 100, py_round l 4,
            py_round r 4 * 100, real correct, real incorrect, real (length outcomes)]"
    by (rule fold_metrics_Inr)
  from pr obtain u where "check_set_wise_labels y_test outcomes = Inr u"
    by (auto simp: precision_score_def and_then_eq_Inr)
  then have card: "card (set y_test \<union> set outcomes) \<le> 2"
    by (simp add: check_set_wise_labels_Inr)
  note c = confusion_counts_Inr[OF cc]
  have z0: "0 \<in> set y_test \<union> set outcomes" and z1: "1 \<in> set y_test \<union> set outcomes"
    using c(1,2) by (auto dest: set_zip_leftD)
  have U: "set y_test \<union> set outcomes = {0, 1}"
    by (rule binary_of_card_le_2[OF _ card z0 z1]) simp
  have "set (zip y_test outcomes) \<subseteq> {0::nat, 1} \<times> {0::nat, 1}"
  proof
    fix x assume x: "x \<in> set (zip y_test outcomes)"
    obtain a b where ab: "x = (a, b)" by (cases x)
    from x ab have "a \<in> set y_test" "b \<in> set outcomes"
      by (auto dest: set_zip_leftD set_zip_rightD)
    with U have "a \<in> {0, 1}" "b \<in> {0, 1}" by blast+
    with ab show "x \<in> {0::nat, 1} \<times> {0::nat, 1}" by auto
  qed
  then have "count_list (zip y_test outcomes) (0, 0) + count_list (zip y_test outcomes) (1, 1)
      + (count_list (zip y_test outcomes) (1, 0) + count_list (zip y_test outcomes) (0, 1))
      = length (zip y_test outcomes)"
    by (rule count_list_binary_total)
  with c(5,6) len have ci: "correct + incorrect = length y_test" by simp
  have "arr ! 5 + arr ! 6 = real correct + real incorrect" unfolding arr by simp
  also have "\<dots> = real (correct + incorrect)" by simp
  finally show "arr ! 5 + arr ! 6 = real (length y_test)" using ci by simp
  show "arr ! 7 = real (length y_test)" unfolding arr using len by simp
  show "length arr = 8" unfolding arr by simp
qed

section \<open>The loop\<close>

lemma run_fold_Inr:
  assumes "run_fold shuffle xgb training_data target i = Inr (arr, x_train, y_train, y_test, outcomes)"
  obtains x_test preds where
    "train_test_split (shuffle i) training_data target = Inr (x_train, x_test, y_train, y_test)"
    "xgb i x_train y_train x_test y_test = Inr preds"
    "outcomes = map argmax preds"
    "fold_metrics y_test outcomes = Inr arr"
proof -
  from assms obtain sp preds arr' where
    sp: "train_test_split (shuffle i) training_data target = Inr sp" and
    rest: "(case sp of (x_train', x_test, y_train', y_test') \<Rightarrow>
             and_then (xgb i x_train' y_train' x_test y_test') (\<lambda>preds.
             let outcomes = map argmax preds in
             and_then (fold_metrics y_test' outcomes) (\<lambda>arr.
             Inr (arr, x_train', y_train', y_test', outcomes))))
           = Inr (arr, x_train, y_train, y_test, outcomes)"
    unfolding run_fold_def and_then_eq_Inr by blast
  obtain x_train' x_test y_train' y_test' where spe: "sp = (x_train', x_test, y_train', y_test')"
    by (cases sp)
  from rest spe obtain preds where
    pr: "xgb i x_train' y_train' x_test y_test' = Inr preds" and
    fm: "and_then (fold_metrics y_test' (map argmax preds)) (\<lambda>arr.
             Inr (arr, x_train', y_train', y_test', map argmax preds))
         = Inr (arr, x_train, y_train, y_test, outcomes)"
    by (auto simp: and_then_eq_Inr Let_def)
  from fm have eqs: "x_train' = x_train" "y_train' = y_train" "y_test' = y_test"
    "outcomes = map argmax preds" and fm': "fold_metrics y_test' (map argmax preds) = Inr arr"
    by (auto simp: and_then_eq_Inr)
  show thesis
    using sp spe pr fm' eqs by (intro that[of x_test preds]) simp_all
qed

lemma build_model_loop_Inr:
  "build_model_loop shuffle xgb training_data target is st = Inr st' \<Longrightarrow>
     \<exists>rs. map (run_fold shuffle xgb training_data target) is = map Inr rs \<and>
          fst st' = fst st @ map fst rs \<and>
          snd st' = (if rs = [] then snd st else Some (snd (last rs)))"
proof (induction "is" arbitrary: st)
  case Nil
  then show ?case by simp
next
  case (Cons i "is")
  from Cons.prems obtain r where
    r: "run_fold shuffle xgb training_data target i = Inr r" and
    rest: "build_model_loop shuffle xgb training_data target is (fst st @ [fst r], Some (snd r)) = Inr st'"
    by (auto simp: and_then_eq_Inr split: prod.splits)
  from Cons.IH[OF rest] obtain rs where
    rs: "map (run_fold shuffle xgb training_data target) is = map Inr rs"
        "fst st' = (fst st @ [fst r]) @ map fst rs"
        "snd st' = (if rs = [] then Some (snd r) else Some (snd (last rs)))"
    by auto
  show ?case
    by (rule exI[of _ "r # rs"]) (use r rs in simp)
qed

lemma build_model_Inr:
  assumes "build_model shuffle xgb training_data target cv_count
             = Inr (metrics_list, x_train, y_train, y_test, outcomes)"
  obtains rs where
    "map (run_fold shuffle xgb training_data target) [0..<nat cv_count] = map Inr rs"
    "metrics_list = map fst rs"
    "rs \<noteq> []"
    "snd (last rs) = (x_train, y_train, y_test, outcomes)"
proof -
  from assms obtain st' where
    loop: "build_model_loop shuffle xgb training_data target [0..<nat cv_count] ([], None) = Inr st'" and
    ret: "(case st' of (metrics_list, vars) \<Rightarrow>
            (case vars of None \<Rightarrow> Inl UnboundLocalError
             | Some (x_train, y_train, y_test, outcomes) \<Rightarrow>
                 Inr (metrics_list, x_train, y_train, y_test, outcomes)))
          = Inr (metrics_list, x_train, y_train, y_test, outcomes)"
    unfolding build_model_def timerun_def and_then_eq_Inr by blast
  from ret have st': "st' = (metrics_list, Some (x_train, y_train, y_test, outcomes))"
    by (auto split: prod.splits option.splits)
  from build_model_loop_Inr[OF loop] st' obtain rs where
    rs: "map (run_fold shuffle xgb training_data target) [0..<nat cv_count] = map Inr rs"
        "metrics_list = map fst rs"
        "Some (x_train, y_train, y_test, outcomes) = (if rs = [] then None else Some (snd (last rs)))"
    by auto
  from rs(3) have "rs \<noteq> []" "snd (last rs) = (x_train, y_train, y_test, outcomes)"
    by (auto split: if_splits)
  with rs(1,2) show thesis by (intro that[of rs])
qed

section \<open>Ranges of the scores\<close>

lemma count_where_le_length: "count_where P xs \<le> length xs"
  by (simp add: count_where_def)

lemma count_where_zip_le_right:
  "count_where (\<lambda>(t, p). P t \<and> Q p) (zip xs ys) \<le> count_where Q ys"
  unfolding count_where_def
proof (induction ys arbitrary: xs)
  case Nil
  show ?case by simp
next
  case (Cons y ys)
  show ?case
  proof (cases xs)
    case Nil
    then show ?thesis by simp
  next
    case (Cons x xs')
    with Cons.IH[of xs'] show ?thesis by (simp add: le_SucI)
  qed
qed

lemma count_where_zip_le_left:
  "count_where (\<lambda>(t, p). P t \<and> Q p) (zip xs ys) \<le> count_where P xs"
  unfolding count_where_def
proof (induction xs arbitrary: ys)
  case Nil
  show ?case by simp
next
  case (Cons x xs)
  show ?case
  proof (cases ys)
    case Nil
    then show ?thesis by simp
  next
    case (Cons y ys')
    with Cons.IH[of ys'] show ?thesis by (simp add: le_SucI)
  qed
qed

lemma ratio_unit:
  "a \<le> b \<Longrightarrow>
     0 \<le> (if b = 0 then 0 else real a / real b) \<and> (if b = 0 then 0 else real a / real b) \<le> 1"
  by simp

lemma precision_score_range:
  assumes "precision_score y_true y_pred = Inr p"
  shows "0 \<le> p \<and> p \<le> 1"
proof -
  let ?tp = "count_where (\<lambda>(t, p). t = 1 \<and> p = 1) (zip y_true y_pred)"
  let ?ps = "count_where (\<lambda>p. p = 1) y_pred"
  from assms have "p = (if ?ps = 0 then 0 else real ?tp / real ?ps)"
    by (auto simp: precision_score_def and_then_eq_Inr Let_def)
  moreover have "?tp \<le> ?ps" by (rule count_where_zip_le_right)
  ultimately show ?thesis using ratio_unit by simp
qed

lemma recall_score_range:
  assumes "recall_score y_true y_pred = Inr p"
  shows "0 \<le> p \<and> p \<le> 1"
proof -
  let ?tp = "count_where (\<lambda>(t, p). t = 1 \<and> p = 1) (zip y_true y_pred)"
  let ?ts = "count_where (\<lambda>t. t = 1) y_true"
  from assms have "p = (if ?ts = 0 then 0 else real ?tp / real ?ts)"
    by (auto simp: recall_score_def and_then_eq_Inr Let_def)
  moreover have "?tp \<le> ?ts" by (rule count_where_zip_le_left)
  ultimately show ?thesis using ratio_unit by simp
qed

lemma accuracy_score_range:
  assumes "accuracy_score y_true y_pred = Inr a"
  shows "0 \<le> a \<and> a \<le> 1"
proof -
  let ?k = "count_where (\<lambda>(t, p). t = p) (zip y_true y_pred)"
  from assms have a: "a = real ?k / real (length y_true)" and len: "length y_pred = length y_true"
    and ne: "y_true \<noteq> []"
    by (auto simp: accuracy_score_def split: if_splits)
  have "?k \<le> length (zip y_true y_pred)" by (rule count_where_le_length)
  with len have "?k \<le> length y_true" by simp
  with a ne show ?thesis by simp
qed

text \<open>Rounding keeps a value between the integers that bound it.\<close>

lemma rint_nonneg: "0 \<le> x \<Longrightarrow> 0 \<le> rint x"
  by (auto simp: rint_def Let_def)

lemma rint_le_int:
  assumes "x \<le> of_int n"
  shows "rint x \<le> n"
proof -
  have fl: "\<lfloor>x\<rfloor> \<le> n" using assms by (simp add: floor_le_iff) 
  show ?thesis
  proof (cases "x - of_int \<lfloor>x\<rfloor> < 1 / 2")
    case True
    then show ?thesis using fl by (simp add: rint_def Let_def)
  next
    case False
    then have "of_int \<lfloor>x\<rfloor> < x" by simp
    with assms have "of_int \<lfloor>x\<rfloor> < (of_int n :: real)" by simp
    then have "\<lfloor>x\<rfloor> < n" by simp
    then show ?thesis by (simp add: rint_def Let_def)
  qed
qed

lemma py_round_nonneg: "0 \<le> x \<Longrightarrow> 0 \<le> py_round x n"
  by (simp add: py_round_def rint_nonneg)

lemma py_round_le_one:
  assumes "x \<le> 1"
  shows "py_round x n \<le> 1"
proof -
  have "x * 10 ^ n \<le> of_int (10 ^ n)" using assms by simp
  then have "rint (x * 10 ^ n) \<le> 10 ^ n" by (rule rint_le_int)
  then have "(of_int (rint (x * 10 ^ n)) :: real) \<le> of_int (10 ^ n)" by (simp only: of_int_le_iff)
  then show ?thesis by (simp add: py_round_def)
qed

lemma percent_range:
  assumes "0 \<le> x \<and> x \<le> 1"
  shows "0 \<le> py_round x n * 100 \<and> py_round x n * 100 \<le> 100"
  using py_round_nonneg[of x n] py_round_le_one[of x n] assms by simp

lemma log_loss_eps_bounds: "0 < log_loss_eps" "log_loss_eps < 1 / 2"
  by (simp_all add: log_loss_eps_def)

lemma clip_bounds: "lo \<le> hi \<Longrightarrow> lo \<le> clip x lo hi \<and> clip x lo hi \<le> hi"
  by (simp add: clip_def)

lemma sample_loss_nonneg: "0 \<le> sample_loss pos tp"
proof -
  let ?p = "clip (snd tp) log_loss_eps (1 - log_loss_eps)"
  have "log_loss_eps \<le> 1 - log_loss_eps" using log_loss_eps_bounds by simp
  from clip_bounds[OF this, of "snd tp"] have b: "log_loss_eps \<le> ?p" "?p \<le> 1 - log_loss_eps"
    by simp_all
  have "0 < ?p" "?p \<le> 1" "0 < 1 - ?p" "1 - ?p \<le> 1"
    using b log_loss_eps_bounds by simp_all
  then have "ln ?p \<le> 0" "ln (1 - ?p) \<le> 0" by simp_all
  then show ?thesis by (simp add: sample_loss_def Let_def)
qed

lemma log_loss_nonneg:
  assumes "log_loss y_true y_pred = Inr l"
  shows "0 \<le> l"
proof -
  from assms obtain pos where
    l: "l = sum_list (map (sample_loss pos) (zip y_true y_pred))
            / real (length (map (sample_loss pos) (zip y_true y_pred)))"
    by (auto simp: log_loss_def Let_def split: if_splits)
  have "0 \<le> sum_list (map (sample_loss pos) (zip y_true y_pred))"
    by (rule sum_list_nonneg) (auto simp: sample_loss_nonneg)
  then show ?thesis unfolding l by simp
qed

lemma pair_score_range: "0 \<le> pair_score p n \<and> pair_score p n \<le> 1"
  by (simp add: pair_score_def)

lemma sum_list_le_length:
  assumes "\<And>x. x \<in> set xs \<Longrightarrow> f x \<le> (c::real)"
  shows "sum_list (map f xs) \<le> real (length xs) * c"
  using assms by (induction xs) (auto simp: algebra_simps add_mono)

lemma area_under_curve_range: "0 \<le> area_under_curve pos neg \<and> area_under_curve pos neg \<le> 1"
proof -
  let ?inner = "\<lambda>p. sum_list (map (pair_score p) neg)"
  let ?r = "area_under_curve pos neg"
  have r: "?r = sum_list (map ?inner pos) / (real (length pos) * real (length neg))"
    by (simp add: area_under_curve_def)
  have inner0: "0 \<le> ?inner p" for p
    by (rule sum_list_nonneg) (auto simp: pair_score_range)
  have inner1: "?inner p \<le> real (length neg) * 1" for p
    by (rule sum_list_le_length) (simp add: pair_score_range)
  have s0: "0 \<le> sum_list (map ?inner pos)"
    by (rule sum_list_nonneg) (auto simp: inner0)
  have s1: "sum_list (map ?inner pos) \<le> real (length pos) * (real (length neg) * 1)"
    by (rule sum_list_le_length) (rule inner1)
  have "0 \<le> ?r" unfolding r using s0 by simp
  moreover have "?r \<le> 1"
  proof (cases "real (length pos) * real (length neg) = 0")
    case True
    then have "?r = 0" unfolding r by (simp only: div_by_0)
    then show ?thesis by simp
  next
    case False
    then have "0 < real (length pos) * real (length neg)" by simp
    then show ?thesis unfolding r using s1 by (simp add: divide_le_eq)
  qed
  ultimately show ?thesis by simp
qed

lemma roc_auc_score_range:
  assumes "roc_auc_score y_true y_score = Inr r"
  shows "0 \<le> r \<and> r \<le> 1"
proof -
  from assms obtain pos neg where "r = area_under_curve pos neg"
    by (auto simp: roc_auc_score_def Let_def split: if_splits)
  then show ?thesis by (simp add: area_under_curve_range)
qed

lemma fold_metrics_ranges:
  assumes "fold_metrics y_test outcomes = Inr arr"
  shows "0 \<le> arr ! 0 \<and> arr ! 0 \<le> 100" "0 \<le> arr ! 1 \<and> arr ! 1 \<le> 100"
        "0 \<le> arr ! 2 \<and> arr ! 2 \<le> 100" "0 \<le> arr ! 3" "0 \<le> arr ! 4 \<and> arr ! 4 \<le> 100"
proof -
  from assms obtain p a l r rc correct incorrect where
    p: "precision_score y_test outcomes = Inr p" and
    a: "accuracy_score y_test outcomes = Inr a" and
    l: "log_loss y_test (map real outcomes) = Inr l" and
    r: "roc_auc_score y_test (map real outcomes) = Inr r" and
    rc: "recall_score y_test outcomes = Inr rc" and
    arr: "arr = [py_round p 4 * 100, py_round rc 4 * 100, py_round a 4 * 100, py_round l 4,
            py_round r 4 * 100, real correct, real incorrect, real (length outcomes)]"
    by (rule fold_metrics_Inr)
  show "0 \<le> arr ! 0 \<and> arr ! 0 \<le> 100"
    unfolding arr using percent_range[OF precision_score_range[OF p], of 4] by simp
  show "0 \<le> arr ! 1 \<and> arr ! 1 \<le> 100"
    unfolding arr using percent_range[OF recall_score_range[OF rc], of 4] by simp
  show "0 \<le> arr ! 2 \<and> arr ! 2 \<le> 100"
    unfolding arr using percent_range[OF accuracy_score_range[OF a], of 4] by simp
  show "0 \<le> arr ! 3"
    unfolding arr using py_round_nonneg[OF log_loss_nonneg[OF l], of 4] by simp
  show "0 \<le> arr ! 4 \<and> arr ! 4 \<le> 100"
    unfolding arr using percent_range[OF roc_auc_score_range[OF r], of 4] by simp
qed

section \<open>The worked input, evaluated\<close>

text \<open>The fold of the worked input: both held-out games are predicted correctly.\<close>

lemma example_precision: "precision_score [0, 1] [0, 1] = Inr 1"
  by (simp add: precision_score_def check_set_wise_labels_def unique_labels_def count_where_def)

lemma example_recall: "recall_score [0, 1] [0, 1] = Inr 1"
  by (simp add: recall_score_def check_set_wise_labels_def unique_labels_def count_where_def)

lemma example_accuracy: "accuracy_score [0, 1] [0, 1] = Inr 1"
  by (simp add: accuracy_score_def count_where_def)

lemma example_roc_auc: "roc_auc_score [0, 1] (map real [0, 1]) = Inr 1"
  by (simp add: roc_auc_score_def area_under_curve_def pair_score_def)

lemma example_log_loss: "log_loss [0, 1] (map real [0, 1]) = Inr (- ln (1 - log_loss_eps))"
  by (simp add: log_loss_def sample_loss_def clip_def Let_def log_loss_eps_def)

lemma example_confusion_counts: "confusion_counts (pd_crosstab (zip [0, 1] [0, 1])) = Inr (2, 0)"
  by (simp add: confusion_counts_eq)

lemma py_round_one: "py_round 1 4 = 1"
  by (simp add: py_round_def rint_def)

text \<open>
  A correct prediction is read by \<^verbatim>\<open>log_loss\<close> as the probability \<open>1 - eps\<close> of the true label;
  its loss rounds to zero.
\<close>

lemma rint_small: "0 \<le> x \<Longrightarrow> x < 1 / 2 \<Longrightarrow> rint x = 0"
proof -
  assume a: "0 \<le> x" "x < 1 / 2"
  then have "\<lfloor>x\<rfloor> = 0" by (simp add: floor_eq_iff)
  with a show ?thesis by (simp add: rint_def)
qed

lemma loss_of_sure_hit: "0 \<le> - ln (1 - log_loss_eps)" "- ln (1 - log_loss_eps) \<le> 2 * log_loss_eps"
proof -
  have e: "0 < log_loss_eps" "log_loss_eps < 1 / 2" by (simp_all add: log_loss_eps_def)
  then have "ln (1 - log_loss_eps) \<le> 0" by simp
  then show "0 \<le> - ln (1 - log_loss_eps)" by simp
  have "- log_loss_eps - 2 * log_loss_eps\<^sup>2 \<le> ln (1 - log_loss_eps)"
    using e by (intro ln_one_minus_pos_lower_bound) simp_all
  moreover have "2 * log_loss_eps\<^sup>2 \<le> log_loss_eps"
    using e by (simp add: power2_eq_square)
  ultimately show "- ln (1 - log_loss_eps) \<le> 2 * log_loss_eps" by simp
qed

lemma py_round_sure_hit: "py_round (- ln (1 - log_loss_eps)) 4 = 0"
proof -
  have "- ln (1 - log_loss_eps) * 10 ^ 4 \<le> 2 * log_loss_eps * 10 ^ 4"
    using loss_of_sure_hit(2) by simp
  also have "\<dots> < 1 / 2" by (simp add: log_loss_eps_def)
  finally have "- ln (1 - log_loss_eps) * 10 ^ 4 < 1 / 2" .
  moreover have "0 \<le> - ln (1 - log_loss_eps) * 10 ^ 4" using loss_of_sure_hit(1) by simp
  ultimately have "rint (- ln (1 - log_loss_eps) * 10 ^ 4) = 0" by (intro rint_small)
  then show ?thesis by (simp add: py_round_def)
qed

lemma example_split:
  "train_test_split (example_shuffle 0) example_frame example_target =
     Inr (\<lparr>columns = [''A_Massey'', ''H_Massey''], rows = [[-2, 2], [1, 1], [3, 0], [-3, 4], [2, 2]]\<rparr>,
          \<lparr>columns = [''A_Massey'', ''H_Massey''], rows = [[-1, 3], [2, 1]]\<rparr>,
          [0, 1, 1, 0, 1], [0, 1])"
  by (simp add: train_test_split_def example_shuffle_def example_frame_def example_target_def
        n_test_of_def safe_indexing_def Let_def)

lemma example_fold_metrics:
  "fold_metrics [0, 1] [0, 1] = Inr [100, 100, 100, 0, 100, 2, 0, 2]"
  by (simp add: fold_metrics_def combine_def example_precision[simplified]
        example_recall[simplified] example_accuracy[simplified] example_roc_auc[simplified]
        example_log_loss[simplified] example_confusion_counts[simplified] py_round_one
        py_round_sure_hit)

lemma example_run_fold:
  "run_fold example_shuffle example_xgb example_frame example_target 0 =
     Inr ([100, 100, 100, 0, 100, 2, 0, 2],
          \<lparr>columns = [''A_Massey'', ''H_Massey''], rows = [[-2, 2], [1, 1], [3, 0], [-3, 4], [2, 2]]\<rparr>,
          [0, 1, 1, 0, 1], [0, 1], [0, 1])"
  by (simp add: run_fold_def example_split example_xgb_def argmax_def Let_def
        example_fold_metrics[simplified])

lemma example_build_model:
  "build_model example_shuffle example_xgb example_frame example_target 1 =
     Inr ([[100, 100, 100, 0, 100, 2, 0, 2]],
          \<lparr>columns = [''A_Massey'', ''H_Massey''], rows = [[-2, 2], [1, 1], [3, 0], [-3, 4], [2, 2]]\<rparr>,
          [0, 1, 1, 0, 1], [0, 1], [0, 1])"
  by (simp add: build_model_def timerun_def example_run_fold)

section \<open>The folds of a run that returns\<close>

lemma map_eq_map_Inr_nth:
  assumes "map f xs = map Inr rs" "i < length rs"
  shows "f (xs ! i) = Inr (rs ! i)" "length xs = length rs"
proof -
  from assms(1) have "length (map f xs) = length (map Inr rs)" by simp
  then show len: "length xs = length rs" by simp
  from assms(1) have "map f xs ! i = map Inr rs ! i" by simp
  with assms(2) len show "f (xs ! i) = Inr (rs ! i)" by simp
qed

lemma build_model_folds:
  assumes "build_model shuffle xgb training_data target cv_count
             = Inr (metrics_list, x_train, y_train, y_test, outcomes)"
  shows "1 \<le> cv_count" "int (length metrics_list) = cv_count"
    "\<And>i. i < length metrics_list \<Longrightarrow>
       \<exists>vars. run_fold shuffle xgb training_data target i = Inr (metrics_list ! i, vars)"
    "\<exists>arr. run_fold shuffle xgb training_data target (nat cv_count - 1)
             = Inr (arr, x_train, y_train, y_test, outcomes)"
proof -
  from assms obtain rs where
    rs: "map (run_fold shuffle xgb training_data target) [0..<nat cv_count] = map Inr rs" and
    ms: "metrics_list = map fst rs" and ne: "rs \<noteq> []" and
    lst: "snd (last rs) = (x_train, y_train, y_test, outcomes)"
    by (rule build_model_Inr)
  from rs have "length (map (run_fold shuffle xgb training_data target) [0..<nat cv_count])
      = length (map Inr rs)" by simp
  then have len: "length rs = nat cv_count" by simp
  with ne have pos: "0 < nat cv_count" by (cases rs) auto
  then show "1 \<le> cv_count" by simp
  from len ms pos show "int (length metrics_list) = cv_count" by simp
  have fold: "run_fold shuffle xgb training_data target i = Inr (rs ! i)" if "i < length rs" for i
    using map_eq_map_Inr_nth(1)[OF rs that] that len by simp
  show "\<exists>vars. run_fold shuffle xgb training_data target i = Inr (metrics_list ! i, vars)"
    if "i < length metrics_list" for i
  proof -
    from that ms have i: "i < length rs" by simp
    then have "metrics_list ! i = fst (rs ! i)" using ms by simp
    with fold[OF i] have "run_fold shuffle xgb training_data target i = Inr (metrics_list ! i, snd (rs ! i))"
      by simp
    then show ?thesis ..
  qed
  have "last rs = rs ! (nat cv_count - 1)" using ne len by (simp add: last_conv_nth)
  moreover have "nat cv_count - 1 < length rs" using len pos by simp
  ultimately have "run_fold shuffle xgb training_data target (nat cv_count - 1) = Inr (last rs)"
    using fold by simp
  with lst have "run_fold shuffle xgb training_data target (nat cv_count - 1)
      = Inr (fst (last rs), x_train, y_train, y_test, outcomes)"
    by (metis prod.collapse)
  then show "\<exists>arr. run_fold shuffle xgb training_data target (nat cv_count - 1)
             = Inr (arr, x_train, y_train, y_test, outcomes)" ..
qed

lemma build_model_entry:
  assumes "build_model shuffle xgb training_data target cv_count
             = Inr (metrics_list, x_train, y_train, y_test, outcomes)"
    and "m \<in> set metrics_list"
  obtains i x_tr x_te y_tr y_te preds where
    "i < length metrics_list" "m = metrics_list ! i"
    "train_test_split (shuffle i) training_data target = Inr (x_tr, x_te, y_tr, y_te)"
    "xgb i x_tr y_tr x_te y_te = Inr preds"
    "fold_metrics y_te (map argmax preds) = Inr m"
proof -
  from assms(2) obtain i where i: "i < length metrics_list" "m = metrics_list ! i"
    by (auto simp: in_set_conv_nth)
  from build_model_folds(3)[OF assms(1) i(1)] i(2) obtain vars where
    "run_fold shuffle xgb training_data target i = Inr (m, vars)" by auto
  moreover obtain x_tr y_tr y_te outs where "vars = (x_tr, y_tr, y_te, outs)" by (cases vars)
  ultimately have rf: "run_fold shuffle xgb training_data target i = Inr (m, x_tr, y_tr, y_te, outs)"
    by simp
  from run_fold_Inr[OF rf] obtain x_te preds where
    "train_test_split (shuffle i) training_data target = Inr (x_tr, x_te, y_tr, y_te)"
    "xgb i x_tr y_tr x_te y_te = Inr preds" "outs = map argmax preds"
    "fold_metrics y_te outs = Inr m" by blast
  with i show thesis by (intro that[of i x_tr x_te y_tr y_te preds]) simp_all
qed

section \<open>Claims on the training loop\<close>

text \<open>
  C1, counterexample. \<^verbatim>\<open>build_model\<close> does not return for every frame, label vector and fold
  count: with two games, labelled \<open>0\<close> and \<open>1\<close>, and one fold, a single game is held out,
  its label is the only class of \<^verbatim>\<open>y_test\<close>, and \<^verbatim>\<open>log_loss\<close> raises \<^verbatim>\<open>ValueError\<close>, which
  nothing catches.
\<close>

theorem build_model_raises_on_two_samples:
  "build_model (\<lambda>i. [0, 1]) example_xgb
     \<lparr>columns = [''A_Massey'', ''H_Massey''], rows = [[-1, 3], [2, 1]]\<rparr> [0, 1] 1
   = Inl ValueError"
  by (simp add: build_model_def timerun_def run_fold_def train_test_split_def n_test_of_def safe_indexing_def
        example_xgb_def argmax_def fold_metrics_def combine_def precision_score_def
        check_set_wise_labels_def unique_labels_def count_where_def accuracy_score_def
        log_loss_def Let_def)

text \<open>
  C1, as amended. Whenever \<^verbatim>\<open>build_model\<close> returns, the fold count is at least one, the
  metrics list has exactly as many entries as the fold count, and each entry is a list of
  eight numbers.
\<close>

theorem build_model_metrics_shape:
  assumes "build_model shuffle xgb training_data target cv_count
             = Inr (metrics_list, x_train, y_train, y_test, outcomes)"
  shows "1 \<le> cv_count \<and> int (length metrics_list) = cv_count
         \<and> (\<forall>m \<in> set metrics_list. length m = 8)"
proof -
  have "length m = 8" if "m \<in> set metrics_list" for m
  proof -
    from assms that obtain y_te preds where "fold_metrics y_te (map argmax preds) = Inr m"
      by (rule build_model_entry)
    then show ?thesis by (rule fold_metrics_counts(3))
  qed
  with build_model_folds(1,2)[OF assms] show ?thesis by simp
qed

text \<open>
  C1, witness: the worked input with one fold.
\<close>

theorem build_model_metrics_shape_witness:
  "build_model example_shuffle example_xgb example_frame example_target 1
     = Inr ([[100, 100, 100, 0, 100, 2, 0, 2]],
            \<lparr>columns = [''A_Massey'', ''H_Massey''],
             rows = [[-2, 2], [1, 1], [3, 0], [-3, 4], [2, 2]]\<rparr>,
            [0, 1, 1, 0, 1], [0, 1], [0, 1])
   \<and> (1::int) \<le> 1
   \<and> int (length [[100, 100, 100, 0, 100, 2, 0, 2 :: real]]) = 1
   \<and> length [100, 100, 100, 0, 100, 2, 0, 2 :: real] = 8"
  using build_model_metrics_shape[OF example_build_model] example_build_model by simp

text \<open>
  C2. For every fold of a run of \<^verbatim>\<open>build_model\<close> that returns, the correct count (position
  5 of the entry) plus the incorrect count (position 6) is the number of held-out samples
  of the split of that fold, which is also the recorded game count (position 7).
\<close>

theorem confusion_counts_cover_held_out_rows:
  assumes "build_model shuffle xgb training_data target cv_count
             = Inr (metrics_list, x_train, y_train, y_test, outcomes)"
  shows "\<forall>i < length metrics_list.
           \<exists>x_tr x_te y_tr y_te.
             train_test_split (shuffle i) training_data target = Inr (x_tr, x_te, y_tr, y_te)
             \<and> metrics_list ! i ! 5 + metrics_list ! i ! 6 = real (length y_te)
             \<and> metrics_list ! i ! 7 = real (length y_te)"
proof (intro allI impI)
  fix i assume i: "i < length metrics_list"
  from build_model_folds(3)[OF assms i] obtain vars where
    "run_fold shuffle xgb training_data target i = Inr (metrics_list ! i, vars)" by auto
  moreover obtain x_tr y_tr y_te outs where "vars = (x_tr, y_tr, y_te, outs)" by (cases vars)
  ultimately have rf:
    "run_fold shuffle xgb training_data target i = Inr (metrics_list ! i, x_tr, y_tr, y_te, outs)"
    by simp
  from run_fold_Inr[OF rf] obtain x_te where
    sp: "train_test_split (shuffle i) training_data target = Inr (x_tr, x_te, y_tr, y_te)" and
    fm: "fold_metrics y_te outs = Inr (metrics_list ! i)" by blast
  from sp fold_metrics_counts(1,2)[OF fm]
  show "\<exists>x_tr x_te y_tr y_te.
             train_test_split (shuffle i) training_data target = Inr (x_tr, x_te, y_tr, y_te)
             \<and> metrics_list ! i ! 5 + metrics_list ! i ! 6 = real (length y_te)
             \<and> metrics_list ! i ! 7 = real (length y_te)"
    by blast
qed

text \<open>
  C2, witness: the worked input with one fold.
\<close>

theorem confusion_counts_cover_held_out_rows_witness:
  "build_model example_shuffle example_xgb example_frame example_target 1
     = Inr ([[100, 100, 100, 0, 100, 2, 0, 2]],
            \<lparr>columns = [''A_Massey'', ''H_Massey''],
             rows = [[-2, 2], [1, 1], [3, 0], [-3, 4], [2, 2]]\<rparr>,
            [0, 1, 1, 0, 1], [0, 1], [0, 1])
   \<and> (\<exists>x_tr x_te y_tr y_te.
         train_test_split (example_shuffle 0) example_frame example_target
           = Inr (x_tr, x_te, y_tr, y_te)
         \<and> [100, 100, 100, 0, 100, 2, 0, 2] ! 5 + [100, 100, 100, 0, 100, 2, 0, 2] ! 6
             = real (length y_te)
         \<and> [100, 100, 100, 0, 100, 2, 0, 2] ! 7 = real (length y_te))"
  using confusion_counts_cover_held_out_rows[OF example_build_model] example_build_model
  by simp

text \<open>
  C3. In every entry of the metrics list that \<^verbatim>\<open>build_model\<close> returns, precision, recall,
  accuracy and ROC-AUC (positions 0, 1, 2 and 4), each rounded to four decimals and then
  multiplied by 100, lie in \<open>[0, 100]\<close>, and the log-loss (position 3) is not negative.
\<close>

theorem recorded_metrics_in_range:
  assumes "build_model shuffle xgb training_data target cv_count
             = Inr (metrics_list, x_train, y_train, y_test, outcomes)"
  shows "\<forall>m \<in> set metrics_list.
           (0 \<le> m ! 0 \<and> m ! 0 \<le> 100) \<and> (0 \<le> m ! 1 \<and> m ! 1 \<le> 100)
           \<and> (0 \<le> m ! 2 \<and> m ! 2 \<le> 100) \<and> 0 \<le> m ! 3 \<and> (0 \<le> m ! 4 \<and> m ! 4 \<le> 100)"
proof
  fix m assume "m \<in> set metrics_list"
  with assms obtain y_te preds where fm: "fold_metrics y_te (map argmax preds) = Inr m"
    by (rule build_model_entry)
  from fold_metrics_ranges[OF fm]
  show "(0 \<le> m ! 0 \<and> m ! 0 \<le> 100) \<and> (0 \<le> m ! 1 \<and> m ! 1 \<le> 100)
           \<and> (0 \<le> m ! 2 \<and> m ! 2 \<le> 100) \<and> 0 \<le> m ! 3 \<and> (0 \<le> m ! 4 \<and> m ! 4 \<le> 100)"
    by blast
qed

text \<open>
  C3, witness: the worked input with one fold.
\<close>

theorem recorded_metrics_in_range_witness:
  "build_model example_shuffle example_xgb example_frame example_target 1
     = Inr ([[100, 100, 100, 0, 100, 2, 0, 2]],
            \<lparr>columns = [''A_Massey'', ''H_Massey''],
             rows = [[-2, 2], [1, 1], [3, 0], [-3, 4], [2, 2]]\<rparr>,
            [0, 1, 1, 0, 1], [0, 1], [0, 1])
   \<and> (0 \<le> [100, 100, 100, 0, 100, 2, 0, 2 :: real] ! 0
        \<and> [100, 100, 100, 0, 100, 2, 0, 2 :: real] ! 0 \<le> 100)
   \<and> (0 \<le> [100, 100, 100, 0, 100, 2, 0, 2 :: real] ! 1
        \<and> [100, 100, 100, 0, 100, 2, 0, 2 :: real] ! 1 \<le> 100)
   \<and> (0 \<le> [100, 100, 100, 0, 100, 2, 0, 2 :: real] ! 2
        \<and> [100, 100, 100, 0, 100, 2, 0, 2 :: real] ! 2 \<le> 100)
   \<and> 0 \<le> [100, 100, 100, 0, 100, 2, 0, 2 :: real] ! 3
   \<and> (0 \<le> [100, 100, 100, 0, 100, 2, 0, 2 :: real] ! 4
        \<and> [100, 100, 100, 0, 100, 2, 0, 2 :: real] ! 4 \<le> 100)"
  using recorded_metrics_in_range[OF example_build_model] example_build_model by simp

lemma zip_projections:
  assumes "length ys = length xs"
  shows "fst ` set (zip xs ys) = set xs" "snd ` set (zip xs ys) = set ys"
proof -
  have "set (map fst (zip xs ys)) = set xs" using assms by (simp add: map_fst_zip)
  then show "fst ` set (zip xs ys) = set xs" by simp
  have "set (map snd (zip xs ys)) = set ys" using assms by (simp add: map_snd_zip)
  then show "snd ` set (zip xs ys) = set ys" by simp
qed

lemma fold_metrics_raises_with_confusion_counts:
  assumes "combine y_test outcomes = Inr combined"
    and "confusion_counts (pd_crosstab combined) = Inl e"
  shows "\<exists>e'. fold_metrics y_test outcomes = Inl e'"
proof (cases "fold_metrics y_test outcomes")
  case (Inl e')
  then show ?thesis by simp
next
  case (Inr arr)
  then obtain correct incorrect where
    "confusion_counts (pd_crosstab (zip y_test outcomes)) = Inr (correct, incorrect)"
    by (rule fold_metrics_Inr)
  moreover from assms(1) have "combined = zip y_test outcomes"
    by (simp add: combine_def split: if_splits)
  ultimately show ?thesis using assms(2) by simp
qed

text \<open>
  C10. For the held-out labels and the predicted labels of a fold, paired as the module
  pairs them: when both classes occur among the held-out labels and among the predicted
  labels, the four reads of the cross-tabulation succeed and the two counts are computed;
  when a class is absent from either side, a read raises \<^verbatim>\<open>KeyError\<close> and the fold raises.
\<close>

theorem confusion_counts_defined_iff_both_classes:
  assumes "combine y_test outcomes = Inr combined"
  shows "if 0 \<in> set y_test \<and> 1 \<in> set y_test \<and> 0 \<in> set outcomes \<and> 1 \<in> set outcomes
         then \<exists>correct incorrect. confusion_counts (pd_crosstab combined) = Inr (correct, incorrect)
         else (\<exists>k. confusion_counts (pd_crosstab combined) = Inl (KeyError k))
              \<and> (\<exists>e. fold_metrics y_test outcomes = Inl e)"
proof -
  from assms have len: "length outcomes = length y_test" and c: "combined = zip y_test outcomes"
    by (simp_all add: combine_def split: if_splits)
  note z = zip_projections[OF len]
  show ?thesis
  proof (cases "0 \<in> set y_test \<and> 1 \<in> set y_test \<and> 0 \<in> set outcomes \<and> 1 \<in> set outcomes")
    case True
    then show ?thesis unfolding c by (simp add: confusion_counts_eq z)
  next
    case False
    then have k: "\<exists>k. confusion_counts (pd_crosstab combined) = Inl (KeyError k)"
      unfolding c by (auto simp: confusion_counts_eq z)
    then obtain k where "confusion_counts (pd_crosstab combined) = Inl (KeyError k)" ..
    from fold_metrics_raises_with_confusion_counts[OF assms this]
    have "\<exists>e. fold_metrics y_test outcomes = Inl e" .
    with k show ?thesis using False by (simp only: if_False simp_thms)
  qed
qed

text \<open>
  C10, witness: a fold with both classes on both sides, and a fold in which no game is
  predicted as class \<open>1\<close>.
\<close>

theorem confusion_counts_defined_iff_both_classes_witness:
  "combine [0, 1] [0, 1] = Inr [(0, 0), (1, 1)]
   \<and> (\<exists>correct incorrect. confusion_counts (pd_crosstab [(0, 0), (1, 1)]) = Inr (correct, incorrect))
   \<and> combine [0, 1] [0, 0] = Inr [(0, 0), (1, 0)]
   \<and> (\<exists>k. confusion_counts (pd_crosstab [(0, 0), (1, 0)]) = Inl (KeyError k))
   \<and> (\<exists>e. fold_metrics [0, 1] [0, 0] = Inl e)"
proof -
  have a: "combine [0, 1] [0, 1] = Inr [(0, 0), (1, 1)]" by (simp add: combine_def)
  have b: "combine [0, 1] [0, 0] = Inr [(0, 0), (1, 0)]" by (simp add: combine_def)
  from confusion_counts_defined_iff_both_classes[OF a]
       confusion_counts_defined_iff_both_classes[OF b] a b
  show ?thesis by simp
qed

text \<open>
  C7, as amended. Whenever \<^verbatim>\<open>build_model\<close> returns, the four values returned beside the
  metrics list are, for the split of the last fold, the training features, the training
  labels, the held-out labels, and the labels predicted for the held-out rows (the arg-max
  of the probabilities that the learner gave).
\<close>

theorem build_model_returns_last_fold:
  assumes "build_model shuffle xgb training_data target cv_count
             = Inr (metrics_list, x_train, y_train, y_test, outcomes)"
  shows "1 \<le> cv_count \<and>
         (\<exists>x_test preds.
            train_test_split (shuffle (nat cv_count - 1)) training_data target
              = Inr (x_train, x_test, y_train, y_test)
            \<and> xgb (nat cv_count - 1) x_train y_train x_test y_test = Inr preds
            \<and> outcomes = map argmax preds)"
proof -
  from build_model_folds(4)[OF assms] obtain arr where
    "run_fold shuffle xgb training_data target (nat cv_count - 1)
       = Inr (arr, x_train, y_train, y_test, outcomes)" ..
  from run_fold_Inr[OF this] build_model_folds(1)[OF assms] show ?thesis by blast
qed

text \<open>
  C7, witness: the worked input with one fold.
\<close>

theorem build_model_returns_last_fold_witness:
  "build_model example_shuffle example_xgb example_frame example_target 1
     = Inr ([[100, 100, 100, 0, 100, 2, 0, 2]],
            \<lparr>columns = [''A_Massey'', ''H_Massey''],
             rows = [[-2, 2], [1, 1], [3, 0], [-3, 4], [2, 2]]\<rparr>,
            [0, 1, 1, 0, 1], [0, 1], [0, 1])
   \<and> (\<exists>x_test preds.
         train_test_split (example_shuffle 0) example_frame example_target
           = Inr (\<lparr>columns = [''A_Massey'', ''H_Massey''],
                   rows = [[-2, 2], [1, 1], [3, 0], [-3, 4], [2, 2]]\<rparr>,
                  x_test, [0, 1, 1, 0, 1], [0, 1])
         \<and> example_xgb 0 \<lparr>columns = [''A_Massey'', ''H_Massey''],
                           rows = [[-2, 2], [1, 1], [3, 0], [-3, 4], [2, 2]]\<rparr>
              [0, 1, 1, 0, 1] x_test [0, 1] = Inr preds
         \<and> [0, 1] = map argmax preds)"
  using build_model_returns_last_fold[OF example_build_model] example_build_model by simp

text \<open>
  C7, counterexample. On the worked input the only frame that \<^verbatim>\<open>build_model\<close> returns is the
  training part of the last split (five games); the held-out part (two games) is not
  returned.
\<close>

theorem build_model_omits_held_out_features:
  "map_sum id (\<lambda>r. fst (snd r))
     (build_model example_shuffle example_xgb example_frame example_target 1)
     = Inr \<lparr>columns = [''A_Massey'', ''H_Massey''],
            rows = [[-2, 2], [1, 1], [3, 0], [-3, 4], [2, 2]]\<rparr>
   \<and> map_sum id (\<lambda>s. fst (snd s))
       (train_test_split (example_shuffle 0) example_frame example_target)
     = Inr \<lparr>columns = [''A_Massey'', ''H_Massey''], rows = [[-1, 3], [2, 1]]\<rparr>"
  by (simp add: example_build_model example_split)

section \<open>Feature scoring: the table written\<close>

lemma select_k_best_fit_Inr:
  assumes "select_k_best_fit f_classif x_train y_train = Inr fit_scores"
  shows "fit_scores = map (\<lambda>j. f_classif (column_values x_train j) y_train) [0..<length (columns x_train)]"
    "length fit_scores = length (columns x_train)"
  using assms by (auto simp: select_k_best_fit_def split: if_splits)

lemma sort_values_descending_props:
  "mset (sort_values_descending rs) = mset rs"
  "length (sort_values_descending rs) = length rs"
  "sorted_wrt (\<lambda>a b. b \<le> a) (map fst (sort_values_descending rs))"
proof -
  show "mset (sort_values_descending rs) = mset rs" by (simp add: sort_values_descending_def)
  show "length (sort_values_descending rs) = length rs" by (simp add: sort_values_descending_def)
  have "sorted (map (\<lambda>r. - fst r) (sort_values_descending rs))"
    unfolding sort_values_descending_def by (rule sorted_sort_key)
  then show "sorted_wrt (\<lambda>a b. b \<le> a) (map fst (sort_values_descending rs))"
    by (simp add: sorted_map sorted_wrt_map)
qed

lemma feature_scoring_Inr:
  assumes "feature_scoring f_classif x_train y_train engine = Inr (scores, engine')"
  obtains fit_scores where
    "select_k_best_fit f_classif x_train y_train = Inr fit_scores"
    "df_columns scores =
       [(''Specs'', map (\<lambda>r. Num (fst r)) (sort_values_descending (zip fit_scores (columns x_train)))),
        (''Score'', map (\<lambda>r. Str (snd r)) (sort_values_descending (zip fit_scores (columns x_train))))]"
    "engine' = engine(''feature_scores'' \<mapsto> df_columns scores)"
  using assms
  by (auto simp: feature_scoring_def timerun_def and_then_eq_Inr Let_def to_sql_def)

lemma sorted_rows_of_fit:
  assumes "length fit_scores = length cols"
  defines "rs \<equiv> sort_values_descending (zip fit_scores cols)"
  shows "mset (map snd rs) = mset cols" "mset rs = mset (zip fit_scores cols)"
    "length rs = length cols" "sorted_wrt (\<lambda>a b. b \<le> a) (map fst rs)"
proof -
  show m: "mset rs = mset (zip fit_scores cols)"
    unfolding rs_def by (rule sort_values_descending_props(1))
  have "mset (map snd rs) = image_mset snd (mset rs)" by simp
  also have "\<dots> = image_mset snd (mset (zip fit_scores cols))" by (simp only: m)
  also have "\<dots> = mset (map snd (zip fit_scores cols))" by simp
  also have "\<dots> = mset cols" using assms(1) by (simp add: map_snd_zip)
  finally show "mset (map snd rs) = mset cols" .
  show "length rs = length cols"
    unfolding rs_def using assms(1) by (simp add: sort_values_descending_props(2))
  show "sorted_wrt (\<lambda>a b. b \<le> a) (map fst rs)"
    unfolding rs_def by (rule sort_values_descending_props(3))
qed


text \<open>
  C9. In the table that \<^verbatim>\<open>feature_scoring\<close> returns and writes to \<^verbatim>\<open>feature_scores\<close>, the column
  named \<^verbatim>\<open>Specs\<close> holds the numeric scores and the column named \<^verbatim>\<open>Score\<close> holds the feature
  names, row by row the score and the name of one column of the frame.
\<close>

theorem feature_scores_column_labels:
  assumes "feature_scoring f_classif x_train y_train engine = Inr (scores, engine')"
  shows "\<exists>rs.
           mset rs = mset (zip (map (\<lambda>j. f_classif (column_values x_train j) y_train)
                                  [0..<length (columns x_train)])
                               (columns x_train))
           \<and> map_of (df_columns scores) ''Specs'' = Some (map (\<lambda>r. Num (fst r)) rs)
           \<and> map_of (df_columns scores) ''Score'' = Some (map (\<lambda>r. Str (snd r)) rs)
           \<and> engine' ''feature_scores'' = Some (df_columns scores)"
proof -
  from assms obtain fit_scores where
    fit: "select_k_best_fit f_classif x_train y_train = Inr fit_scores" and
    cols: "df_columns scores =
       [(''Specs'', map (\<lambda>r. Num (fst r)) (sort_values_descending (zip fit_scores (columns x_train)))),
        (''Score'', map (\<lambda>r. Str (snd r)) (sort_values_descending (zip fit_scores (columns x_train))))]" and
    eng: "engine' = engine(''feature_scores'' \<mapsto> df_columns scores)"
    by (rule feature_scoring_Inr)
  let ?rs = "sort_values_descending (zip fit_scores (columns x_train))"
  note f = select_k_best_fit_Inr[OF fit]
  have "mset ?rs = mset (zip (map (\<lambda>j. f_classif (column_values x_train j) y_train)
                                  [0..<length (columns x_train)]) (columns x_train))"
    using sorted_rows_of_fit(2)[OF f(2)] f(1) by simp
  moreover have "map_of (df_columns scores) ''Specs'' = Some (map (\<lambda>r. Num (fst r)) ?rs)"
    "map_of (df_columns scores) ''Score'' = Some (map (\<lambda>r. Str (snd r)) ?rs)"
    unfolding cols by simp_all
  moreover have "engine' ''feature_scores'' = Some (df_columns scores)" using eng by simp
  ultimately show ?thesis by blast
qed

lemma example_feature_scoring:
  "feature_scoring example_f_classif
     \<lparr>columns = [''A_Massey'', ''H_Massey''], rows = [[-2, 2], [1, 1], [3, 0], [-3, 4], [2, 2]]\<rparr>
     [0, 1, 1, 0, 1] Map.empty
   = Inr (\<lparr>df_index = [Num 0, Num 1],
           df_columns = [(''Specs'', [Num 9, Num 1]), (''Score'', [Str ''H_Massey'', Str ''A_Massey''])]\<rparr>,
          [''feature_scores'' \<mapsto>
             [(''Specs'', [Num 9, Num 1]), (''Score'', [Str ''H_Massey'', Str ''A_Massey''])]])"
  by (simp add: feature_scoring_def timerun_def select_k_best_fit_def column_values_def example_f_classif_def
        sort_values_descending_def to_sql_def Let_def upt_rec)



text \<open>
  C9, witness: the training part of the worked input.
\<close>

theorem feature_scores_column_labels_witness:
  "feature_scoring example_f_classif
     \<lparr>columns = [''A_Massey'', ''H_Massey''], rows = [[-2, 2], [1, 1], [3, 0], [-3, 4], [2, 2]]\<rparr>
     [0, 1, 1, 0, 1] Map.empty
   = Inr (\<lparr>df_index = [Num 0, Num 1],
           df_columns = [(''Specs'', [Num 9, Num 1]), (''Score'', [Str ''H_Massey'', Str ''A_Massey''])]\<rparr>,
          [''feature_scores'' \<mapsto>
             [(''Specs'', [Num 9, Num 1]), (''Score'', [Str ''H_Massey'', Str ''A_Massey''])]])
   \<and> (\<exists>rs. mset rs = mset [(1, ''A_Massey''), (9, ''H_Massey'')]
         \<and> Some [Num 9, Num 1] = Some (map (\<lambda>r. Num (fst r)) rs)
         \<and> Some [Str ''H_Massey'', Str ''A_Massey''] = Some (map (\<lambda>r. Str (snd r)) rs))"
proof -
  from feature_scores_column_labels[OF example_feature_scoring]
  have "\<exists>rs. mset rs = mset [(1, ''A_Massey''), (9, ''H_Massey'')]
         \<and> Some [Num 9, Num 1] = Some (map (\<lambda>r. Num (fst r)) rs)
         \<and> Some [Str ''H_Massey'', Str ''A_Massey''] = Some (map (\<lambda>r. Str (snd r)) rs)"
    by (simp add: column_values_def example_f_classif_def upt_rec)
  then show ?thesis using example_feature_scoring by blast
qed

section \<open>Metric aggregation\<close>

text \<open>
  C5. The table that \<^verbatim>\<open>build_metric_table\<close> returns, or the error it raises, depends on the
  metrics list alone and not on the database; and running it again on the same list, on
  the database that the first run left, returns the same table and leaves the same
  database.
\<close>

theorem build_metric_table_repeatable:
  "map_sum id fst (build_metric_table metrics_data engine)
     = map_sum id fst (build_metric_table metrics_data engine')
   \<and> and_then (build_metric_table metrics_data engine)
         (\<lambda>(table, engine1). build_metric_table metrics_data engine1)
       = build_metric_table metrics_data engine"
proof (cases "metrics_frame metrics_data")
  case (Inl e)
  then show ?thesis by (simp add: build_metric_table_def timerun_def)
next
  case (Inr table)
  then show ?thesis by (simp add: build_metric_table_def timerun_def Let_def to_sql_def)
qed

text \<open>
  In exact arithmetic the mean of a column with at least one cell lies between its minimum
  and its maximum. The cells that pandas stores are float64 results; the rounding of the
  sum and of the division that give the mean is not part of this model.
\<close>

lemma fold_min_eq: "fold min ws (v::real) = Min (set (v # ws))"
  by (rule Min.set_eq_fold[symmetric])

lemma fold_max_eq: "fold max ws (v::real) = Max (set (v # ws))"
  by (rule Max.set_eq_fold[symmetric])

lemma sum_list_bounds:
  assumes "\<And>x. x \<in> set xs \<Longrightarrow> lo \<le> x \<and> x \<le> (hi::real)"
  shows "real (length xs) * lo \<le> sum_list xs \<and> sum_list xs \<le> real (length xs) * hi"
  using assms
proof (induction xs)
  case Nil
  show ?case by simp
next
  case (Cons x xs)
  then have "lo \<le> x \<and> x \<le> hi" and
    "real (length xs) * lo \<le> sum_list xs \<and> sum_list xs \<le> real (length xs) * hi"
    by simp_all
  then show ?case by (simp add: algebra_simps)
qed

lemma mean_between_min_and_max:
  fixes v :: real
  shows "fold min ws v \<le> sum_list (v # ws) / real (length (v # ws))
         \<and> sum_list (v # ws) / real (length (v # ws)) \<le> fold max ws v"
proof -
  let ?vs = "v # ws"
  have "Min (set ?vs) \<le> x \<and> x \<le> Max (set ?vs)" if "x \<in> set ?vs" for x
    using that by (simp only: Min_le Max_ge List.finite_set simp_thms)
  then have "real (length ?vs) * Min (set ?vs) \<le> sum_list ?vs
      \<and> sum_list ?vs \<le> real (length ?vs) * Max (set ?vs)"
    by (rule sum_list_bounds)
  moreover have "0 < real (length ?vs)" by simp
  ultimately have "Min (set ?vs) \<le> sum_list ?vs / real (length ?vs)
      \<and> sum_list ?vs / real (length ?vs) \<le> Max (set ?vs)"
    by (simp only: pos_le_divide_eq pos_divide_le_eq mult.commute)
  then show ?thesis by (simp only: fold_min_eq fold_max_eq)
qed

lemma exact_mean_between_min_and_max:
  assumes "vs \<noteq> []"
  shows "\<exists>lo mean hi. agg_min vs = Num lo \<and> agg_mean vs = Num mean \<and> agg_max vs = Num hi
           \<and> lo \<le> mean \<and> mean \<le> hi"
proof -
  from assms obtain v ws where vs: "vs = v # ws" by (cases vs) auto
  from mean_between_min_and_max[of ws v] show ?thesis
    unfolding vs agg_min_def agg_mean_def agg_max_def by simp
qed

section \<open>The recorded log-loss\<close>

text \<open>
  C6, the module at an input where it departs from the claim. On the worked input the
  learner gives each held-out game a probability of \<open>3 / 5\<close> for its true class, so the
  negative log-likelihood of the true labels under the predicted probabilities is
  \<open>- ln (3 / 5)\<close>, at least \<open>2 / 5\<close>. The log-loss recorded (position 3 of the entry) is
  \<open>0\<close>: \<^verbatim>\<open>log_loss\<close> is given the predicted labels \<^verbatim>\<open>outcomes\<close>, not the probabilities
  \<^verbatim>\<open>preds\<close>.
\<close>

theorem recorded_logloss_is_not_the_likelihood_of_the_probabilities:
  "build_model example_shuffle example_xgb example_frame example_target 1
     = Inr ([[100, 100, 100, 0, 100, 2, 0, 2]],
            \<lparr>columns = [''A_Massey'', ''H_Massey''],
             rows = [[-2, 2], [1, 1], [3, 0], [-3, 4], [2, 2]]\<rparr>,
            [0, 1, 1, 0, 1], [0, 1], [0, 1])
   \<and> example_xgb 0
        \<lparr>columns = [''A_Massey'', ''H_Massey''],
         rows = [[-2, 2], [1, 1], [3, 0], [-3, 4], [2, 2]]\<rparr> [0, 1, 1, 0, 1]
        \<lparr>columns = [''A_Massey'', ''H_Massey''], rows = [[-1, 3], [2, 1]]\<rparr> [0, 1]
      = Inr [(3 / 5, 2 / 5), (2 / 5, 3 / 5)]
   \<and> negative_log_likelihood [0, 1] [(3 / 5, 2 / 5), (2 / 5, 3 / 5)] = - ln (3 / 5)
   \<and> 2 / 5 \<le> - ln (3 / 5 :: real)"
proof -
  have "ln (3 / 5 :: real) \<le> 3 / 5 - 1" by (rule ln_le_minus_one) simp
  then have "2 / 5 \<le> - ln (3 / 5 :: real)" by simp
  moreover have "negative_log_likelihood [0, 1] [(3 / 5, 2 / 5), (2 / 5, 3 / 5)] = - ln (3 / 5)"
    by (simp add: negative_log_likelihood_def)
  moreover have "example_xgb 0
        \<lparr>columns = [''A_Massey'', ''H_Massey''],
         rows = [[-2, 2], [1, 1], [3, 0], [-3, 4], [2, 2]]\<rparr> [0, 1, 1, 0, 1]
        \<lparr>columns = [''A_Massey'', ''H_Massey''], rows = [[-1, 3], [2, 1]]\<rparr> [0, 1]
      = Inr [(3 / 5, 2 / 5), (2 / 5, 3 / 5)]"
    by (simp add: example_xgb_def)
  ultimately show ?thesis using example_build_model by simp
qed


end
